theory Spec2Isabelle
  imports Complex_Main "HOL-Library.AList"
begin

section \<open>JavaScript numbers\<close>

text \<open>
  The engine computes with JavaScript numbers. A finite double is idealised as the real
  number it denotes (no rounding); the three special values are kept, because the engine
  reaches them: \<open>0 / 0\<close> is \<open>NaN\<close>, every comparison with \<open>NaN\<close> is false, and
  \<open>NaN\<close> and \<open>0\<close> are falsy. Negative zero is identified with zero.
\<close>

datatype jsnum = Num real | PosInf | NegInf | NaN

fun jneg :: "jsnum \<Rightarrow> jsnum" where
  "jneg (Num a) = Num (- a)"
| "jneg PosInf = NegInf"
| "jneg NegInf = PosInf"
| "jneg NaN = NaN"

fun jadd :: "jsnum \<Rightarrow> jsnum \<Rightarrow> jsnum" where
  "jadd (Num a) (Num b) = Num (a + b)"
| "jadd NaN y = NaN"
| "jadd x NaN = NaN"
| "jadd PosInf NegInf = NaN"
| "jadd NegInf PosInf = NaN"
| "jadd PosInf y = PosInf"
| "jadd NegInf y = NegInf"
| "jadd (Num a) y = y"

definition jsub :: "jsnum \<Rightarrow> jsnum \<Rightarrow> jsnum" where
  "jsub x y = jadd x (jneg y)"

fun jsign :: "jsnum \<Rightarrow> int" where
  "jsign (Num a) = (if a < 0 then - 1 else if a = 0 then 0 else 1)"
| "jsign PosInf = 1"
| "jsign NegInf = - 1"
| "jsign NaN = 0"

definition signed_inf :: "int \<Rightarrow> jsnum" where
  "signed_inf s = (if s = 0 then NaN else if 0 < s then PosInf else NegInf)"

fun jmul :: "jsnum \<Rightarrow> jsnum \<Rightarrow> jsnum" where
  "jmul (Num a) (Num b) = Num (a * b)"
| "jmul NaN y = NaN"
| "jmul x NaN = NaN"
| "jmul x y = signed_inf (jsign x * jsign y)"

fun jdiv :: "jsnum \<Rightarrow> jsnum \<Rightarrow> jsnum" where
  "jdiv (Num a) (Num b) = (if b = 0 then signed_inf (jsign (Num a)) else Num (a / b))"
| "jdiv NaN y = NaN"
| "jdiv x NaN = NaN"
| "jdiv (Num a) y = Num 0"
| "jdiv x (Num b) = signed_inf (jsign x * (if b < 0 then - 1 else 1))"
| "jdiv x y = NaN"

fun jlt :: "jsnum \<Rightarrow> jsnum \<Rightarrow> bool" where
  "jlt (Num a) (Num b) = (a < b)"
| "jlt NaN y = False"
| "jlt x NaN = False"
| "jlt NegInf y = (y \<noteq> NegInf)"
| "jlt x PosInf = (x \<noteq> PosInf)"
| "jlt x y = False"

definition jgt :: "jsnum \<Rightarrow> jsnum \<Rightarrow> bool" where
  "jgt x y = jlt y x"

definition jge :: "jsnum \<Rightarrow> jsnum \<Rightarrow> bool" where
  "jge x y = (x \<noteq> NaN \<and> y \<noteq> NaN \<and> (jlt y x \<or> x = y))"

definition jmin :: "jsnum \<Rightarrow> jsnum \<Rightarrow> jsnum" where
  "jmin x y = (if x = NaN \<or> y = NaN then NaN else if jlt y x then y else x)"

fun truthy :: "jsnum \<Rightarrow> bool" where
  "truthy (Num a) = (a \<noteq> 0)"
| "truthy NaN = False"
| "truthy x = True"

text \<open>\<open>a || b\<close> on numbers, where the left operand may be \<open>undefined\<close>.\<close>

definition or_default :: "jsnum option \<Rightarrow> jsnum \<Rightarrow> jsnum" where
  "or_default v d = (case v of None \<Rightarrow> d | Some x \<Rightarrow> (if truthy x then x else d))"

section \<open>Strings\<close>

text \<open>
  \<open>toLowerCase\<close> and \<open>includes\<close>, on ASCII text (the veto rules look for ASCII
  fragments of agent names).
\<close>

definition lower_char :: "char \<Rightarrow> char" where
  "lower_char c =
     (let n = (of_char c :: nat) in if 65 \<le> n \<and> n \<le> 90 then char_of (n + 32) else c)"

definition toLowerCase :: "string \<Rightarrow> string" where
  "toLowerCase s = map lower_char s"

fun starts_with :: "string \<Rightarrow> string \<Rightarrow> bool" where
  "starts_with [] s = True"
| "starts_with (p # ps) [] = False"
| "starts_with (p # ps) (c # cs) = (p = c \<and> starts_with ps cs)"

fun includes_s :: "string \<Rightarrow> string \<Rightarrow> bool" where
  "includes_s [] sub = starts_with sub []"
| "includes_s (c # cs) sub = (starts_with sub (c # cs) \<or> includes_s cs sub)"

section \<open>Data model (base-agent.ts)\<close>

text \<open>
  Fields typed \<open>any\<close> in the source are modelled by what the engine reads of them: the
  truthiness of a channel of the satellite data, and the three properties of an agent's
  \<open>data\<close> payload that the veto rules inspect (\<open>None\<close> for \<open>null\<close> or
  \<open>undefined\<close>). \<open>metadata.parameters\<close> is never read and is left out.
\<close>

record physics_validation =
  passesPhysics :: bool
  violations :: "string list"
  residualScore :: jsnum

record agent_data =
  short_wavelength_anomaly :: bool
  alteration_detected :: bool
  coherence_score :: "jsnum option"

record agent_metadata =
  processingTime :: jsnum
  "method" :: string
  timestamp :: string

record agent_result =
  agentName :: string
  detection :: bool
  confidence :: jsnum
  uncertainty :: jsnum
  data :: "agent_data option"
  metadata :: agent_metadata
  vetoPower :: "bool option"
  physicsValidation :: "physics_validation option"

record anomaly_candidate =
  latitude :: jsnum
  longitude :: jsnum
  targetResource :: string
  geologicalContext :: string
  depth :: "jsnum option"
  radius :: "jsnum option"

record optical_data =
  sentinel2 :: bool
  landsat8 :: bool
  landsat9 :: bool

record sar_data =
  sentinel1 :: bool
  alos :: bool

record thermal_data =
  landsatThermal :: bool
  modisLST :: bool

record gravity_data =
  grace :: bool
  goce :: bool

record hyperspectral_data =
  prisma :: bool
  enmap :: bool

record elevation_data =
  srtm :: bool
  aster :: bool

record satellite_data =
  optical :: "optical_data option"
  sar :: "sar_data option"
  thermal :: "thermal_data option"
  gravity :: "gravity_data option"
  hyperspectral :: "hyperspectral_data option"
  elevation :: "elevation_data option"

record quality_report =
  overallQualityScore :: jsnum
  issues :: "string list"
  recommendations :: "string list"
  pass :: bool

record veto_status =
  vetoed :: bool
  vetoingAgent :: "string option"
  vetoReason :: "string option"

text \<open>
  A stored false-positive pattern is typed \<open>any\<close>. Its \<open>agentPattern\<close> property is
  modelled by the shapes that decide what \<open>compareAgentPatterns\<close> does with it:
  missing, an array of \<open>{agent, detection}\<close> entries, or an object that carries such
  an array under a further \<open>agentPattern\<close> property.
\<close>

datatype agent_pattern_value =
  PatUndefined
| PatArray "(string \<times> bool) list"
| PatObject "(string \<times> bool) list"

record fp_pattern =
  resource :: string
  geology :: string
  agentPattern :: agent_pattern_value
  name :: string

record match_details =
  patternId :: string
  matchScore :: jsnum
  pattern :: fp_pattern
  explanation :: string

record fp_check =
  isKnownFP :: bool
  matchDetails :: "match_details option"

text \<open>
  \<open>ConsensusResult\<close>. The early returns of the pipeline build object literals that
  lack some properties, so every property that a literal of the source omits is an
  option here, \<open>agentResults\<close> included. A \<open>Record<string, AgentResult>\<close> is an
  association list in insertion order (agent names are taken to be ordinary property
  keys).
\<close>

record consensus_result =
  detection :: bool
  confidence :: jsnum
  consensus :: jsnum
  agentAgreement :: jsnum
  vetoStatus :: "veto_status option"
  agentResults :: "(string \<times> agent_result) list option"
  falsePositiveCheck :: "fp_check option"
  qualityReport :: "quality_report option"
  timestamp :: string

text \<open>
  An agent is its metadata and its \<open>evaluate\<close> method. What the engine observes of a
  call is how the promise fares against the timer of \<open>runAgentWithTimeout\<close>: it
  fulfils first, it rejects (or \<open>evaluate\<close> throws) first, or the timer fires first.
  \<open>evaluate\<close> therefore maps the candidate, the data and the timer's delay to one of
  these three outcomes.
\<close>

datatype agent_outcome = Fulfilled agent_result | Threw | Exceeded_time

record base_agent =
  name :: string
  agent_type :: string
  priority :: jsnum
  vetoPower :: bool
  evaluate :: "anomaly_candidate \<Rightarrow> satellite_data \<Rightarrow> jsnum \<Rightarrow> agent_outcome"

record consensus_config =
  consensusThreshold :: jsnum
  vetoEnabled :: bool
  confidenceThreshold :: jsnum
  maxProcessingTime :: jsnum
  parallelExecution :: bool

record veto_condition =
  primaryCondition :: string
  secondaryCondition :: "string option"
  vetoReason :: string
  vetoingAgent :: string

text \<open>A \<open>Partial<ConsensusConfig>\<close>: \<open>None\<close> is a property that is not given.\<close>

record partial_config =
  consensusThreshold :: "jsnum option"
  vetoEnabled :: "bool option"
  confidenceThreshold :: "jsnum option"
  maxProcessingTime :: "jsnum option"
  parallelExecution :: "bool option"

record agent_detection =
  agent :: string
  detection :: bool
  confidence :: jsnum

record anomaly_features =
  location :: "jsnum \<times> jsnum"
  resource :: string
  geology :: string
  agentDetections :: "agent_detection list"
  averageConfidence :: jsnum

record consensus_statistics =
  totalEvaluations :: nat
  detectionRate :: jsnum
  vetoRate :: jsnum
  averageConfidence :: jsnum
  averageConsensus :: jsnum
  registeredAgents :: nat

text \<open>The fields of \<open>MultiAgentConsensus\<close>; both \<open>Map\<close>s keep insertion order.\<close>

record engine =
  agents :: "(string \<times> base_agent) list"
  config :: consensus_config
  consensusHistory :: "consensus_result list"
  falsePositiveDatabase :: "(string \<times> fp_pattern) list"

datatype error = AgentFailed | AgentTimedOut string | TypeError

section \<open>Consensus metrics\<close>

text \<open>The two nested loops over \<open>i < j\<close>.\<close>

fun calculatePairwiseAgreements :: "agent_result list \<Rightarrow> nat" where
  "calculatePairwiseAgreements [] = 0"
| "calculatePairwiseAgreements (r # rs) =
     length (filter (\<lambda>s. agent_result.detection r = agent_result.detection s) rs)
       + calculatePairwiseAgreements rs"

record consensus_metrics =
  rawConsensus :: jsnum
  weightedConsensus :: jsnum
  agreementRatio :: jsnum
  detectionCount :: nat
  totalCount :: nat
  agentWeights :: "(string \<times> jsnum) list"

text \<open>
  The loop of \<open>calculateConsensusMetrics\<close> over the entries, with its three
  accumulators \<open>weightedSum\<close>, \<open>totalWeight\<close> and \<open>agentWeights\<close>.
\<close>

fun consensus_loop ::
  "(string \<times> base_agent) list \<Rightarrow> (string \<times> agent_result) list \<Rightarrow>
   jsnum \<times> jsnum \<times> (string \<times> jsnum) list \<Rightarrow> jsnum \<times> jsnum \<times> (string \<times> jsnum) list" where
  "consensus_loop ags [] acc = acc"
| "consensus_loop ags ((nm, result) # rest) (weightedSum, totalWeight, weights) =
     (let weight = (case map_of ags nm of Some ag \<Rightarrow> priority ag | None \<Rightarrow> Num 1)
      in consensus_loop ags rest
           (jadd weightedSum
              (if agent_result.detection result then jmul (agent_result.confidence result) weight
               else Num 0),
            jadd totalWeight weight,
            AList.update nm weight weights))"

definition calculateConsensusMetrics ::
  "engine \<Rightarrow> (string \<times> agent_result) list \<Rightarrow> consensus_metrics" where
  "calculateConsensusMetrics e results_by_name =
     (let results = map snd results_by_name;
          n_detected = length (filter agent_result.detection results);
          n_total = length results;
          raw = jdiv (Num (real n_detected)) (Num (real n_total));
          (weightedSum, totalWeight, weights) =
             consensus_loop (agents e) results_by_name (Num 0, Num 0, []);
          weighted =
             (if jgt totalWeight (Num 0) then jdiv weightedSum totalWeight else Num 0);
          agreements = calculatePairwiseAgreements results;
          ratio =
             jdiv (Num (real agreements))
               (jdiv (jmul (Num (real n_total)) (jsub (Num (real n_total)) (Num 1))) (Num 2))
      in \<lparr> rawConsensus = raw, weightedConsensus = weighted,
           agreementRatio = ratio, detectionCount = n_detected,
           totalCount = n_total, agentWeights = weights \<rparr>)"

section \<open>Phase 1: data quality\<close>

text \<open>\<open>x?.f\<close> used as a condition.\<close>

definition chain :: "'a option \<Rightarrow> ('a \<Rightarrow> bool) \<Rightarrow> bool" where
  "chain x f = (case x of None \<Rightarrow> False | Some v \<Rightarrow> f v)"

definition assessTemporalCoverage :: "satellite_data \<Rightarrow> jsnum" where
  "assessTemporalCoverage d =
     (let score0 = Num 0.5;
          score1 = (if chain (optical d) sentinel2 then jadd score0 (Num 0.2) else score0);
          score2 = (if chain (sar d) sentinel1 then jadd score1 (Num 0.2) else score1);
          score3 = (if chain (thermal d) landsatThermal then jadd score2 (Num 0.1) else score2)
      in jmin (Num 1.0) score3)"

definition assessCloudCover :: "satellite_data \<Rightarrow> jsnum" where
  "assessCloudCover d = (if optical d \<noteq> None then Num 0.85 else Num 1.0)"

definition assessResolutionCompatibility :: "satellite_data \<Rightarrow> jsnum" where
  "assessResolutionCompatibility d =
     (let has10m = (chain (optical d) sentinel2 \<or> chain (sar d) sentinel1);
          has30m = (chain (thermal d) landsatThermal \<or> chain (elevation d) srtm)
      in if has10m \<and> has30m then Num 0.9 else Num 0.6)"

definition assessRadiometricConsistency :: "satellite_data \<Rightarrow> jsnum" where
  "assessRadiometricConsistency d = Num 0.9"

definition performDataQualityCheck :: "satellite_data \<Rightarrow> quality_report" where
  "performDataQualityCheck d =
     (let temporalScore = assessTemporalCoverage d;
          low1 = jlt temporalScore (Num 0.7);
          overall1 = jadd (Num 0.0) (jmul temporalScore (Num 0.2));
          cloudScore = assessCloudCover d;
          low2 = jlt cloudScore (Num 0.8);
          overall2 = jadd overall1 (jmul cloudScore (Num 0.3));
          resolutionScore = assessResolutionCompatibility d;
          low3 = jlt resolutionScore (Num 0.6);
          overall3 = jadd overall2 (jmul resolutionScore (Num 0.25));
          radiometricScore = assessRadiometricConsistency d;
          low4 = jlt radiometricScore (Num 0.9);
          overallScore = jadd overall3 (jmul radiometricScore (Num 0.25))
      in \<lparr> overallQualityScore = overallScore,
           issues =
             (if low1 then [''Insufficient temporal coverage''] else []) @
             (if low2 then [''High cloud contamination in optical data''] else []) @
             (if low3 then [''Incompatible resolutions across sensors''] else []) @
             (if low4 then [''Radiometric inconsistencies detected''] else []),
           recommendations =
             (if low1 then [''Extend date range or use seasonal composite''] else []) @
             (if low2 then [''Apply cloud masking or rely on SAR data''] else []) @
             (if low3 then [''Resample to common resolution grid''] else []) @
             (if low4 then [''Apply cross-sensor calibration''] else []),
           pass = jge overallScore (Num 0.75) \<rparr>)"

section \<open>Phase 2: running the agents\<close>

text \<open>
  The result that both \<open>catch\<close> blocks of \<open>runAgentEvaluations\<close> build. The clock
  (\<open>new Date().toISOString()\<close>) is a parameter \<open>now\<close> of the model.
\<close>

definition failed_result :: "string \<Rightarrow> string \<Rightarrow> agent_result" where
  "failed_result nm now =
     \<lparr> agentName = nm, agent_result.detection = False, agent_result.confidence = Num 0.0,
       uncertainty = Num 1.0, data = None,
       metadata = \<lparr> processingTime = Num 0, method = ''failed'',
                     agent_metadata.timestamp = now \<rparr>,
       agent_result.vetoPower = None, physicsValidation = None \<rparr>"

text \<open>
  \<open>runAgentWithTimeout\<close>: the promise settles with the agent's result, or rejects
  with the agent's error or with the timer's. The list of names is the log of the calls
  of \<open>evaluate\<close> made so far.
\<close>

definition runAgentWithTimeout ::
  "engine \<Rightarrow> base_agent \<Rightarrow> anomaly_candidate \<Rightarrow> satellite_data \<Rightarrow> string list \<Rightarrow>
   (error + agent_result) \<times> string list" where
  "runAgentWithTimeout e ag c d calls =
     ((case evaluate ag c d (consensus_config.maxProcessingTime (config e)) of
         Fulfilled r \<Rightarrow> Inr r
       | Threw \<Rightarrow> Inl AgentFailed
       | Exceeded_time \<Rightarrow> Inl (AgentTimedOut (base_agent.name ag))),
      calls @ [base_agent.name ag])"

text \<open>The \<open>try\<close>/\<open>catch\<close> around one agent, shared by both branches.\<close>

definition run_one ::
  "engine \<Rightarrow> string \<Rightarrow> base_agent \<Rightarrow> anomaly_candidate \<Rightarrow> satellite_data \<Rightarrow> string \<Rightarrow>
   string list \<Rightarrow> agent_result \<times> string list" where
  "run_one e nm ag c d now calls =
     (case runAgentWithTimeout e ag c d calls of
        (Inr r, calls') \<Rightarrow> (r, calls')
      | (Inl err, calls') \<Rightarrow> (failed_result nm now, calls'))"

text \<open>Parallel branch: the \<open>map\<close> over the entries, then \<open>Promise.all\<close>.\<close>

fun run_parallel ::
  "engine \<Rightarrow> (string \<times> base_agent) list \<Rightarrow> anomaly_candidate \<Rightarrow> satellite_data \<Rightarrow> string \<Rightarrow>
   string list \<Rightarrow> (string \<times> agent_result) list \<times> string list" where
  "run_parallel e [] c d now calls = ([], calls)"
| "run_parallel e ((nm, ag) # rest) c d now calls =
     (let (r, calls1) = run_one e nm ag c d now calls;
          (rs, calls2) = run_parallel e rest c d now calls1
      in ((nm, r) # rs, calls2))"

text \<open>Sequential branch: the \<open>for\<close> loop that writes \<open>agentResults[name]\<close>.\<close>

fun run_sequential ::
  "engine \<Rightarrow> (string \<times> base_agent) list \<Rightarrow> anomaly_candidate \<Rightarrow> satellite_data \<Rightarrow> string \<Rightarrow>
   (string \<times> agent_result) list \<Rightarrow> string list \<Rightarrow> (string \<times> agent_result) list \<times> string list" where
  "run_sequential e [] c d now obj calls = (obj, calls)"
| "run_sequential e ((nm, ag) # rest) c d now obj calls =
     (let (r, calls1) = run_one e nm ag c d now calls
      in run_sequential e rest c d now (AList.update nm r obj) calls1)"

definition runAgentEvaluations ::
  "engine \<Rightarrow> anomaly_candidate \<Rightarrow> satellite_data \<Rightarrow> string \<Rightarrow>
   (string \<times> agent_result) list \<times> string list" where
  "runAgentEvaluations e c d now =
     (if consensus_config.parallelExecution (config e) then
        (let (results, calls) = run_parallel e (agents e) c d now []
         in (foldl (\<lambda>obj (nm, r). AList.update nm r obj) [] results, calls))
      else run_sequential e (agents e) c d now [] [])"

section \<open>Phase 4: veto logic\<close>

text \<open>The table \<open>conditionChecks\<close>; a key that is not in it gives \<open>undefined\<close>.\<close>

definition name_has :: "string \<Rightarrow> agent_result \<Rightarrow> bool" where
  "name_has fragment r = includes_s (toLowerCase (agentName r)) fragment"

definition conditionChecks :: "string \<Rightarrow> (agent_result list \<Rightarrow> bool) option" where
  "conditionChecks key =
     (if key = ''seepage_detected'' then
        Some (list_ex (\<lambda>r. name_has ''seepage'' r \<and> agent_result.detection r))
      else if key = ''no_trap_detected'' then
        Some (list_all (\<lambda>r. \<not> name_has ''trap'' r \<or> \<not> agent_result.detection r))
      else if key = ''short_wavelength_high'' then
        Some (list_ex (\<lambda>r. name_has ''grav'' r \<and> chain (data r) short_wavelength_anomaly))
      else if key = ''no_spectral_alteration'' then
        Some (list_all (\<lambda>r. \<not> name_has ''spectral'' r \<or> \<not> chain (data r) alteration_detected))
      else if key = ''temporal_coherence_below_threshold'' then
        Some (list_ex (\<lambda>r. name_has ''temporal'' r \<and>
                chain (data r) (\<lambda>dt. chain (coherence_score dt) (\<lambda>x. jlt x (Num 0.7)))))
      else if key = ''physics_violation'' then
        Some (list_ex (\<lambda>r. chain (physicsValidation r) (\<lambda>pv. \<not> passesPhysics pv)))
      else if key = ''physics_residual_high'' then
        Some (list_ex (\<lambda>r. chain (physicsValidation r) (\<lambda>pv. jgt (residualScore pv) (Num 1.0))))
      else None)"

text \<open>\<open>conditionChecks[key]?.(results)\<close> used as a condition.\<close>

definition check_holds :: "string \<Rightarrow> agent_result list \<Rightarrow> bool" where
  "check_holds key results = (case conditionChecks key of None \<Rightarrow> False | Some f \<Rightarrow> f results)"

definition checkVetoCondition ::
  "(string \<times> agent_result) list \<Rightarrow> veto_condition \<Rightarrow> bool" where
  "checkVetoCondition results_by_name condition =
     (let results = map snd results_by_name
      in if \<not> check_holds (primaryCondition condition) results then False
         else if (case secondaryCondition condition of
                    None \<Rightarrow> False
                  | Some key \<Rightarrow> key \<noteq> [] \<and> \<not> check_holds key results) then False
         else True)"

definition vetoConditions :: "veto_condition list" where
  "vetoConditions =
     [\<lparr> primaryCondition = ''seepage_detected'',
        secondaryCondition = Some ''no_trap_detected'',
        veto_condition.vetoReason =
          ''Surface seepage without subsurface trap violates causal consistency'',
        veto_condition.vetoingAgent = ''StructuralContextAgent'' \<rparr>,
      \<lparr> primaryCondition = ''short_wavelength_high'',
        secondaryCondition = Some ''no_spectral_alteration'',
        veto_condition.vetoReason =
          ''High-frequency gravity anomaly without mineral alteration'',
        veto_condition.vetoingAgent = ''SpectralEvolutionAgent'' \<rparr>,
      \<lparr> primaryCondition = ''physics_violation'',
        secondaryCondition = None,
        veto_condition.vetoReason =
          ''Anomaly violates physics constraints for this geological province'',
        veto_condition.vetoingAgent = ''PhysicsValidationAgent'' \<rparr>,
      \<lparr> primaryCondition = ''temporal_coherence_below_threshold'',
        secondaryCondition = None,
        veto_condition.vetoReason =
          ''Signal lacks multi-year persistence required for valid detection'',
        veto_condition.vetoingAgent = ''TemporalCoherenceAgent'' \<rparr>,
      \<lparr> primaryCondition = ''physics_residual_high'',
        secondaryCondition = None,
        veto_condition.vetoReason = ''Model violates physical laws at this location'',
        veto_condition.vetoingAgent = ''QuantumInversionAgent'' \<rparr>]"

definition not_vetoed :: veto_status where
  "not_vetoed = \<lparr> vetoed = False, veto_status.vetoingAgent = None, veto_status.vetoReason = None \<rparr>"

fun veto_loop :: "(string \<times> agent_result) list \<Rightarrow> veto_condition list \<Rightarrow> veto_status" where
  "veto_loop results_by_name [] = not_vetoed"
| "veto_loop results_by_name (condition # rest) =
     (if checkVetoCondition results_by_name condition then
        \<lparr> vetoed = True,
          veto_status.vetoingAgent = Some (veto_condition.vetoingAgent condition),
          veto_status.vetoReason = Some (veto_condition.vetoReason condition) \<rparr>
      else veto_loop results_by_name rest)"

definition applyVetoLogic ::
  "engine \<Rightarrow> (string \<times> agent_result) list \<Rightarrow> consensus_metrics \<Rightarrow> veto_status" where
  "applyVetoLogic e results_by_name metrics =
     (if \<not> consensus_config.vetoEnabled (config e) then not_vetoed
      else veto_loop results_by_name vetoConditions)"

section \<open>Weighted confidence\<close>

text \<open>
  The loop of \<open>calculateWeightedConfidence\<close>; the weight of an entry is
  \<open>agentWeights?.[agentName] || 1\<close>.
\<close>

fun confidence_loop ::
  "(string \<times> agent_result) list \<Rightarrow> (string \<times> jsnum) list option \<Rightarrow> jsnum \<times> jsnum \<Rightarrow>
   jsnum \<times> jsnum" where
  "confidence_loop [] ws acc = acc"
| "confidence_loop ((nm, result) # rest) ws (weightedSum, totalWeight) =
     (let weight = or_default (case ws of None \<Rightarrow> None | Some w \<Rightarrow> map_of w nm) (Num 1);
          conf = (if agent_result.detection result then agent_result.confidence result else Num 0);
          adjustedConfidence = jmul conf (jsub (Num 1) (uncertainty result))
      in confidence_loop rest ws
           (jadd weightedSum (jmul adjustedConfidence weight), jadd totalWeight weight))"

definition calculateWeightedConfidence ::
  "(string \<times> agent_result) list \<Rightarrow> (string \<times> jsnum) list option \<Rightarrow> jsnum" where
  "calculateWeightedConfidence results_by_name ws =
     (let (weightedSum, totalWeight) = confidence_loop results_by_name ws (Num 0, Num 0)
      in if jgt totalWeight (Num 0) then jdiv weightedSum totalWeight else Num 0)"

section \<open>Phase 5: false-positive database\<close>

definition extractAnomalyFeatures ::
  "anomaly_candidate \<Rightarrow> (string \<times> agent_result) list \<Rightarrow> anomaly_features" where
  "extractAnomalyFeatures c results_by_name =
     \<lparr> location = (latitude c, longitude c),
       anomaly_features.resource = targetResource c,
       anomaly_features.geology = geologicalContext c,
       agentDetections =
         map (\<lambda>(nm, result).
                \<lparr> agent = nm, agent_detection.detection = agent_result.detection result,
                  agent_detection.confidence = agent_result.confidence result \<rparr>)
             results_by_name,
       anomaly_features.averageConfidence = calculateWeightedConfidence results_by_name None \<rparr>"

text \<open>\<open>new Map(entries)\<close>: a later entry with the same key replaces the value.\<close>

definition new_Map :: "('k \<times> 'v) list \<Rightarrow> ('k \<times> 'v) list" where
  "new_Map entries = foldl (\<lambda>m (k, v). AList.update k v m) [] entries"

text \<open>
  \<open>compareAgentPatterns(detections, pattern)\<close> reads \<open>pattern.agentPattern.map\<close>,
  where \<open>pattern\<close> is already the \<open>agentPattern\<close> property of the stored pattern:
  a \<open>TypeError\<close> unless that property is an object with an array under
  \<open>agentPattern\<close>.
\<close>

definition compareAgentPatterns ::
  "agent_detection list \<Rightarrow> agent_pattern_value \<Rightarrow> error + jsnum" where
  "compareAgentPatterns detections pat =
     (let detectionMap = new_Map (map (\<lambda>d. (agent d, agent_detection.detection d)) detections)
      in case pat of
           PatUndefined \<Rightarrow> Inl TypeError
         | PatArray entries \<Rightarrow> Inl TypeError
         | PatObject entries \<Rightarrow>
             (let patternMap = new_Map entries;
                  matches = length (filter (\<lambda>(a, dt). map_of patternMap a = Some dt) detectionMap)
              in Inr (jdiv (Num (real matches)) (Num (real (length detections))))))"

definition calculatePatternMatch :: "anomaly_features \<Rightarrow> fp_pattern \<Rightarrow> error + jsnum" where
  "calculatePatternMatch features pat =
     (let score0 = Num 0;
          score1 = (if anomaly_features.resource features = fp_pattern.resource pat
                    then jadd score0 (Num 0.3) else score0);
          score2 = (if anomaly_features.geology features = fp_pattern.geology pat
                    then jadd score1 (Num 0.3) else score1)
      in case compareAgentPatterns (agentDetections features) (agentPattern pat) of
           Inl err \<Rightarrow> Inl err
         | Inr agentPatternMatch \<Rightarrow> Inr (jadd score2 (jmul agentPatternMatch (Num 0.4))))"

definition generateFPExplanation :: "fp_pattern \<Rightarrow> anomaly_features \<Rightarrow> string" where
  "generateFPExplanation pat features =
     ''Matches known false positive pattern: '' @ fp_pattern.name pat @ ''. '' @
     ''Common in '' @ anomaly_features.geology features @ '' geological contexts with '' @
     anomaly_features.resource features @ '' targets.''"

definition no_fp :: fp_check where
  "no_fp = \<lparr> isKnownFP = False, matchDetails = None \<rparr>"

fun fp_loop :: "anomaly_features \<Rightarrow> (string \<times> fp_pattern) list \<Rightarrow> error + fp_check" where
  "fp_loop features [] = Inr no_fp"
| "fp_loop features ((pid, pat) # rest) =
     (case calculatePatternMatch features pat of
        Inl err \<Rightarrow> Inl err
      | Inr score \<Rightarrow>
          (if jgt score (Num 0.7) then
             Inr \<lparr> isKnownFP = True,
                   matchDetails = Some \<lparr> patternId = pid, matchScore = score, pattern = pat,
                                        explanation = generateFPExplanation pat features \<rparr> \<rparr>
           else fp_loop features rest))"

definition checkFalsePositiveDatabase ::
  "engine \<Rightarrow> anomaly_candidate \<Rightarrow> (string \<times> agent_result) list \<Rightarrow> error + fp_check" where
  "checkFalsePositiveDatabase e c results_by_name =
     fp_loop (extractAnomalyFeatures c results_by_name) (falsePositiveDatabase e)"

section \<open>The pipeline\<close>

text \<open>
  \<open>evaluateWithConsensus\<close> returns the result, the engine afterwards (its history may
  have grown) and the log of the calls of \<open>evaluate\<close> it made. The only statement of
  the \<open>try\<close> block that can throw on well-typed arguments is the false-positive check;
  the \<open>catch\<close> block then builds \<open>evaluation_failed\<close>. Console output is left out.
\<close>

definition evaluation_failed :: "string \<Rightarrow> consensus_result" where
  "evaluation_failed now =
     \<lparr> consensus_result.detection = False, consensus_result.confidence = Num 0.0,
       consensus = Num 0.0, agentAgreement = Num 0.0, vetoStatus = None,
       agentResults = Some [], falsePositiveCheck = None, qualityReport = None,
       consensus_result.timestamp = now \<rparr>"

definition evaluateWithConsensus ::
  "engine \<Rightarrow> anomaly_candidate \<Rightarrow> satellite_data \<Rightarrow> string \<Rightarrow>
   consensus_result \<times> engine \<times> string list" where
  "evaluateWithConsensus e candidate satelliteData now =
     (let report = performDataQualityCheck satelliteData
      in if \<not> pass report then
           (\<lparr> consensus_result.detection = False, consensus_result.confidence = Num 0.0,
              consensus = Num 0.0, agentAgreement = Num 0.0, vetoStatus = None,
              agentResults = None, falsePositiveCheck = None, qualityReport = Some report,
              consensus_result.timestamp = now \<rparr>, e, [])
         else
           (let (results_by_name, calls) = runAgentEvaluations e candidate satelliteData now;
                consensusMetrics = calculateConsensusMetrics e results_by_name;
                vetoResult = applyVetoLogic e results_by_name consensusMetrics
            in if vetoed vetoResult then
                 (\<lparr> consensus_result.detection = False,
                    consensus_result.confidence = calculateWeightedConfidence results_by_name None,
                    consensus = rawConsensus consensusMetrics,
                    agentAgreement = agreementRatio consensusMetrics,
                    vetoStatus = Some vetoResult, agentResults = Some results_by_name,
                    falsePositiveCheck = None, qualityReport = Some report,
                    consensus_result.timestamp = now \<rparr>, e, calls)
               else
                 (case checkFalsePositiveDatabase e candidate results_by_name of
                    Inl err \<Rightarrow> (evaluation_failed now, e, calls)
                  | Inr fpCheck \<Rightarrow>
                      if isKnownFP fpCheck then
                        (\<lparr> consensus_result.detection = False,
                           consensus_result.confidence =
                             calculateWeightedConfidence results_by_name None,
                           consensus = rawConsensus consensusMetrics,
                           agentAgreement = agreementRatio consensusMetrics,
                           vetoStatus = None, agentResults = Some results_by_name,
                           falsePositiveCheck = Some fpCheck, qualityReport = Some report,
                           consensus_result.timestamp = now \<rparr>, e, calls)
                      else
                        (let finalConfidence =
                               calculateWeightedConfidence results_by_name
                                 (Some (agentWeights consensusMetrics));
                             detected =
                               jge finalConfidence (consensus_config.confidenceThreshold (config e));
                             result =
                               \<lparr> consensus_result.detection = detected,
                                 consensus_result.confidence = finalConfidence,
                                 consensus = rawConsensus consensusMetrics,
                                 agentAgreement = agreementRatio consensusMetrics,
                                 vetoStatus = None, agentResults = Some results_by_name,
                                 falsePositiveCheck = None, qualityReport = Some report,
                                 consensus_result.timestamp = now \<rparr>
                         in (result, e\<lparr> consensusHistory := consensusHistory e @ [result] \<rparr>,
                             calls)))))"

section \<open>Statistics, construction, registration\<close>

definition getConsensusStatistics :: "engine \<Rightarrow> consensus_statistics option" where
  "getConsensusStatistics e =
     (let history = consensusHistory e;
          total = length history
      in if total = 0 then None
         else
           (let detections = length (filter consensus_result.detection history);
                vetoes = length (filter (\<lambda>r. chain (vetoStatus r) vetoed) history);
                avgConfidence =
                  jdiv (foldl (\<lambda>sum r. jadd sum (consensus_result.confidence r)) (Num 0) history)
                       (Num (real total));
                avgConsensus =
                  jdiv (foldl (\<lambda>sum r. jadd sum (consensus r)) (Num 0) history)
                       (Num (real total))
            in Some \<lparr> totalEvaluations = total,
                      detectionRate = jdiv (Num (real detections)) (Num (real total)),
                      vetoRate = jdiv (Num (real vetoes)) (Num (real total)),
                      consensus_statistics.averageConfidence = avgConfidence,
                      averageConsensus = avgConsensus,
                      registeredAgents = length (agents e) \<rparr>))"

text \<open>
  The constructor spreads the given properties over the defaults. It has no
  \<open>throw\<close>; the sum type only makes that visible (the result is always \<open>Inr\<close>).
\<close>

definition or_else :: "'a option \<Rightarrow> 'a \<Rightarrow> 'a" where
  "or_else given dflt = (case given of None \<Rightarrow> dflt | Some v \<Rightarrow> v)"

definition merge_config :: "partial_config \<Rightarrow> consensus_config" where
  "merge_config given =
     \<lparr> consensus_config.consensusThreshold =
         or_else (partial_config.consensusThreshold given) (Num 0.85),
       consensus_config.vetoEnabled = or_else (partial_config.vetoEnabled given) True,
       consensus_config.confidenceThreshold =
         or_else (partial_config.confidenceThreshold given) (Num 0.7),
       consensus_config.maxProcessingTime =
         or_else (partial_config.maxProcessingTime given) (Num 300000),
       consensus_config.parallelExecution =
         or_else (partial_config.parallelExecution given) True \<rparr>"


definition registerAgent :: "engine \<Rightarrow> base_agent \<Rightarrow> engine" where
  "registerAgent e ag = e\<lparr> agents := AList.update (base_agent.name ag) ag (agents e) \<rparr>"

definition removeAgent :: "engine \<Rightarrow> string \<Rightarrow> engine" where
  "removeAgent e nm = e\<lparr> agents := AList.delete nm (agents e) \<rparr>"

section \<open>Concrete inputs\<close>

text \<open>A snapshot with no channel at all (score 0.775, passes the gate).\<close>

definition no_channels :: satellite_data where
  "no_channels = \<lparr> optical = None, sar = None, thermal = None, gravity = None,
     hyperspectral = None, elevation = None \<rparr>"

text \<open>A snapshot with Landsat 8 optical imagery only (score 0.73, fails the gate).\<close>

definition landsat_only :: satellite_data where
  "landsat_only =
     no_channels\<lparr> optical := Some \<lparr> sentinel2 = False, landsat8 = True, landsat9 = False \<rparr> \<rparr>"

definition gold_candidate :: anomaly_candidate where
  "gold_candidate = \<lparr> latitude = Num (- 26), longitude = Num 28, targetResource = ''gold'',
     geologicalContext = ''craton'', depth = None, radius = None \<rparr>"

definition positive_result :: "string \<Rightarrow> real \<Rightarrow> real \<Rightarrow> agent_result" where
  "positive_result nm c u =
     \<lparr> agentName = nm, agent_result.detection = True, agent_result.confidence = Num c,
       uncertainty = Num u, data = None,
       metadata = \<lparr> processingTime = Num 12, method = ''stub'',
                     agent_metadata.timestamp = ''t0'' \<rparr>,
       agent_result.vetoPower = None, physicsValidation = None \<rparr>"

text \<open>An agent whose call always ends the same way.\<close>

definition stub_agent :: "string \<Rightarrow> real \<Rightarrow> agent_outcome \<Rightarrow> base_agent" where
  "stub_agent nm p out =
     \<lparr> base_agent.name = nm, agent_type = ''stub'', priority = Num p,
       base_agent.vetoPower = False, evaluate = (\<lambda>c d t. out) \<rparr>"

definition no_overrides :: partial_config where
  "no_overrides = \<lparr> partial_config.consensusThreshold = None,
     partial_config.vetoEnabled = None, partial_config.confidenceThreshold = None,
     partial_config.maxProcessingTime = None, partial_config.parallelExecution = None \<rparr>"

text \<open>\<open>new MultiAgentConsensus()\<close>, and the engine after registering some agents.\<close>

definition default_engine :: engine where
  "default_engine = \<lparr> agents = [], config = merge_config no_overrides, consensusHistory = [],
     falsePositiveDatabase = [] \<rparr>"

definition engine_with :: "base_agent list \<Rightarrow> engine" where
  "engine_with ags = foldl registerAgent default_engine ags"

text \<open>
  The three detectors of Scenario A of the specification: all detect, confidences 0.9,
  0.8 and 0.85, priorities 2, 2 and 3.
\<close>

definition scenario_A_engine :: engine where
  "scenario_A_engine = engine_with
     [stub_agent ''GravimetricAgent'' 2 (Fulfilled (positive_result ''GravimetricAgent'' 0.9 0)),
      stub_agent ''SpectralAgent'' 2 (Fulfilled (positive_result ''SpectralAgent'' 0.8 0)),
      stub_agent ''QuantumAgent'' 3 (Fulfilled (positive_result ''QuantumAgent'' 0.85 0))]"

text \<open>Scenario B: the third detector also reports a failed physics validation.\<close>

definition violating_result :: agent_result where
  "violating_result = (positive_result ''QuantumAgent'' 0.85 0)
     \<lparr> physicsValidation := Some \<lparr> passesPhysics = False,
         violations = [''Density-depth relationship violation''],
         residualScore = Num 1.2 \<rparr> \<rparr>"

definition scenario_B_engine :: engine where
  "scenario_B_engine = engine_with
     [stub_agent ''GravimetricAgent'' 2 (Fulfilled (positive_result ''GravimetricAgent'' 0.9 0)),
      stub_agent ''SpectralAgent'' 2 (Fulfilled (positive_result ''SpectralAgent'' 0.8 0)),
      stub_agent ''QuantumAgent'' 3 (Fulfilled violating_result)]"


text \<open>
  Scenario A with one stored false-positive pattern whose \<open>agentPattern\<close> property
  is an object that carries the expected outputs under a further \<open>agentPattern\<close>
  property, the shape that \<open>compareAgentPatterns\<close> dereferences.
\<close>

definition laterite_pattern :: "agent_pattern_value \<Rightarrow> fp_pattern" where
  "laterite_pattern expected =
     \<lparr> fp_pattern.resource = ''gold'', fp_pattern.geology = ''craton'',
       agentPattern = expected, fp_pattern.name = ''laterite cap'' \<rparr>"

definition expected_outputs :: "(string \<times> bool) list" where
  "expected_outputs =
     [(''GravimetricAgent'', True), (''SpectralAgent'', True), (''QuantumAgent'', True)]"

definition nested_pattern_engine :: engine where
  "nested_pattern_engine = scenario_A_engine
     \<lparr> falsePositiveDatabase := [(''fp-1'', laterite_pattern (PatObject expected_outputs))] \<rparr>"


text \<open>
  An agent that reports a clean detection for gold and a detection with a failed physics
  validation for any other resource; an engine with this agent only; and the engine after
  a gold evaluation followed by a copper evaluation.
\<close>

definition selective_agent :: base_agent where
  "selective_agent =
     \<lparr> base_agent.name = ''QuantumAgent'', agent_type = ''stub'', priority = Num 3,
       base_agent.vetoPower = True,
       evaluate = (\<lambda>c d t. if targetResource c = ''gold''
                            then Fulfilled (positive_result ''QuantumAgent'' 0.85 0)
                            else Fulfilled violating_result) \<rparr>"

definition selective_engine :: engine where
  "selective_engine = engine_with [selective_agent]"

definition copper_candidate :: anomaly_candidate where
  "copper_candidate = gold_candidate\<lparr> targetResource := ''copper'' \<rparr>"

definition after_gold :: engine where
  "after_gold = fst (snd (evaluateWithConsensus selective_engine gold_candidate no_channels ''t1''))"

definition after_copper :: engine where
  "after_copper = fst (snd (evaluateWithConsensus after_gold copper_candidate no_channels ''t2''))"




text \<open>One detector of priority 0 that detects with confidence 0.9, uncertainty 0.1.\<close>

definition zero_priority_engine :: engine where
  "zero_priority_engine =
     engine_with [stub_agent ''A'' 0 (Fulfilled (positive_result ''A'' 0.9 0.1))]"

section \<open>Notions used in the statements\<close>


text \<open>The same engine with another value of \<open>consensusThreshold\<close>.\<close>

abbreviation (input) set_threshold :: "jsnum \<Rightarrow> engine \<Rightarrow> engine" where
  "set_threshold t e \<equiv>
     e\<lparr> config := (config e)\<lparr> consensus_config.consensusThreshold := t \<rparr> \<rparr>"

text \<open>
  Pairwise agreement in the words of the specification: the number of unordered pairs
  of detectors whose \<open>detected\<close> flags are equal.
\<close>

definition agreeing_pairs :: "bool list \<Rightarrow> nat" where
  "agreeing_pairs bs = card {(i, j). i < j \<and> j < length bs \<and> bs ! i = bs ! j}"

text \<open>
  The weight that \<open>calculateConsensusMetrics\<close> records for a name: the priority of
  the registered agent.
\<close>

definition registered_priority :: "(string \<times> base_agent) list \<Rightarrow> string \<Rightarrow> jsnum" where
  "registered_priority ags nm =
     (case map_of ags nm of Some ag \<Rightarrow> priority ag | None \<Rightarrow> Num 1)"

fun the_num :: "jsnum \<Rightarrow> real" where
  "the_num (Num a) = a"
| "the_num x = 0"

text \<open>
  The fusion formula in the words of the specification, over detectors given as
  (weight, detected, confidence, uncertainty): the weighted sum over the detecting ones
  divided by the total weight, and 0 when the total weight is 0.
\<close>

definition spec_final_confidence :: "(real \<times> bool \<times> real \<times> real) list \<Rightarrow> real" where
  "spec_final_confidence ds =
     (let total = (\<Sum>(w, dt, c, u) \<leftarrow> ds. w)
      in if total = 0 then 0
         else (\<Sum>(w, dt, c, u) \<leftarrow> ds. if dt then c * (1 - u) * w else 0) / total)"




section \<open>Properties of the consensus metrics\<close>

lemma agreementRatio_eq:
  "agreementRatio (calculateConsensusMetrics e rs) =
     jdiv (Num (real (calculatePairwiseAgreements (map snd rs))))
       (Num (real (length rs) * (real (length rs) - 1) / 2))"
  by (simp add: calculateConsensusMetrics_def jsub_def Let_def split: prod.splits)

text \<open>The nested loops count the unordered pairs with equal flags.\<close>

lemma agreeing_pairs_Cons:
  "agreeing_pairs (b # bs) = length (filter (\<lambda>s. b = s) bs) + agreeing_pairs bs"
proof -
  let ?S = "{(i, j). i < j \<and> j < length bs \<and> bs ! i = bs ! j}"
  let ?H = "(\<lambda>j. (0::nat, Suc j)) ` {j. j < length bs \<and> b = bs ! j}"
  let ?T = "(\<lambda>(i, j). (Suc i, Suc j)) ` ?S"
  have split: "{(i, j). i < j \<and> j < length (b # bs) \<and> (b # bs) ! i = (b # bs) ! j} = ?H \<union> ?T"
  proof (rule set_eqI)
    fix x :: "nat \<times> nat"
    obtain i j where x: "x = (i, j)" by (cases x)
    show "x \<in> {(i, j). i < j \<and> j < length (b # bs) \<and> (b # bs) ! i = (b # bs) ! j}
            \<longleftrightarrow> x \<in> ?H \<union> ?T"
    proof (cases i)
      case 0
      then show ?thesis
        unfolding x by (cases j) auto
    next
      case (Suc i')
      then show ?thesis
        unfolding x by (cases j) (auto simp: image_iff)
    qed
  qed
  have finS: "finite ?S"
  proof (rule finite_subset)
    show "?S \<subseteq> {..<length bs} \<times> {..<length bs}" by auto
  qed simp
  have disj: "?H \<inter> ?T = {}" by auto
  have cardH: "card ?H = length (filter (\<lambda>s. b = s) bs)"
  proof -
    have "card ?H = card {j. j < length bs \<and> b = bs ! j}"
      by (rule card_image) (simp add: inj_on_def)
    then show ?thesis
      by (simp add: length_filter_conv_card)
  qed
  have cardT: "card ?T = card ?S"
    by (rule card_image) (auto simp: inj_on_def)
  have "card (?H \<union> ?T) = card ?H + card ?T"
    by (rule card_Un_disjoint) (use finS disj in auto)
  then show ?thesis
    unfolding agreeing_pairs_def split cardH cardT by simp
qed

lemma calculatePairwiseAgreements_counts_pairs:
  "calculatePairwiseAgreements rs = agreeing_pairs (map agent_result.detection rs)"
proof (induction rs)
  case Nil
  then show ?case by (simp add: agreeing_pairs_def)
next
  case (Cons r rs)
  have "length (filter (\<lambda>s. agent_result.detection r = agent_result.detection s) rs) =
        length (filter (\<lambda>s. agent_result.detection r = s) (map agent_result.detection rs))"
    by (induction rs) auto
  then show ?case
    by (simp add: Cons.IH agreeing_pairs_Cons)
qed

lemma choose_two: "real (n choose 2) = real n * (real n - 1) / 2"
  by (induction n) (auto simp: numeral_2_eq_2 field_simps)

text \<open>
  With two detectors or more the ratio is the number of agreeing pairs over \<open>C(n,2)\<close>.
\<close>

lemma agreementRatio_two_or_more:
  assumes "2 \<le> length rs"
  shows "agreementRatio (calculateConsensusMetrics e rs) =
     Num (real (calculatePairwiseAgreements (map snd rs)) / real (length rs choose 2))"
proof -
  have "real (length rs choose 2) \<noteq> 0"
    using assms by simp
  then show ?thesis
    unfolding agreementRatio_eq choose_two by simp
qed

lemma agreementRatio_is_pairs_over_choose:
  assumes "2 \<le> length rs"
  shows "agreementRatio (calculateConsensusMetrics e rs) =
     Num (real (agreeing_pairs (map agent_result.detection (map snd rs)))
          / real (length rs choose 2))"
  using agreementRatio_two_or_more[OF assms]
  by (simp add: calculatePairwiseAgreements_counts_pairs)

text \<open>The example of the specification: outputs \<open>[true, true, false]\<close>.\<close>

lemma agreementRatio_example:
  "calculatePairwiseAgreements
     [positive_result ''A'' c1 u1, positive_result ''B'' c2 u2,
      (positive_result ''C'' c3 u3)\<lparr> agent_result.detection := False \<rparr>] = 1
   \<and> agreementRatio (calculateConsensusMetrics e
       [(''A'', positive_result ''A'' c1 u1), (''B'', positive_result ''B'' c2 u2),
        (''C'', (positive_result ''C'' c3 u3)\<lparr> agent_result.detection := False \<rparr>)])
     = Num (1 / 3)"
  by (simp add: agreementRatio_eq positive_result_def)

text \<open>
  C2. With no detector result the raw consensus is computed as \<open>0 / 0\<close>: the
  division is not guarded (the weighted consensus next to it is), and the value is
  \<open>NaN\<close>, not \<open>0\<close>. An engine without agents reports it as the \<open>consensus\<close> of
  its result.
\<close>

theorem rawConsensus_of_no_detectors:
  "rawConsensus (calculateConsensusMetrics e []) = NaN
   \<and> weightedConsensus (calculateConsensusMetrics e []) = Num 0
   \<and> consensus (fst (evaluateWithConsensus default_engine gold_candidate no_channels ''now''))
       = NaN"
proof -
  have "rawConsensus (calculateConsensusMetrics e []) = NaN"
    by (simp add: calculateConsensusMetrics_def signed_inf_def)
  moreover have "weightedConsensus (calculateConsensusMetrics e []) = Num 0"
    by (simp add: calculateConsensusMetrics_def jgt_def)
  moreover have
    "consensus (fst (evaluateWithConsensus default_engine gold_candidate no_channels ''now''))
       = NaN"
    by code_simp
  ultimately show ?thesis by simp
qed

text \<open>
  C7. With one detector result, or none, the agreement ratio is \<open>0 / 0\<close>, that is
  \<open>NaN\<close>, not \<open>1\<close>: the division by \<open>n (n - 1) / 2\<close> is not guarded.
\<close>

theorem agreementRatio_of_one_detector:
  "agreementRatio (calculateConsensusMetrics e [(nm, r)]) = NaN
   \<and> agreementRatio (calculateConsensusMetrics e []) = NaN"
  by (simp add: agreementRatio_eq signed_inf_def)


section \<open>Properties of the quality gate\<close>

lemma jlt_not_jge: "jlt x y \<Longrightarrow> \<not> jge x y"
  by (cases x; cases y) (auto simp: jge_def)

text \<open>The overall score is the weighted sum of the four sub-scores.\<close>

lemma overall_score_weighted_sum:
  assumes "assessTemporalCoverage d = Num t" and "assessCloudCover d = Num cl"
    and "assessResolutionCompatibility d = Num r" and "assessRadiometricConsistency d = Num m"
  shows "overallQualityScore (performDataQualityCheck d) =
           Num (0.20 * t + 0.30 * cl + 0.25 * r + 0.25 * m)"
  using assms by (simp add: performDataQualityCheck_def Let_def algebra_simps)

text \<open>A score below 0.75 fails the gate.\<close>

lemma low_score_fails_gate:
  assumes "jlt (overallQualityScore (performDataQualityCheck d)) (Num 0.75)"
  shows "\<not> pass (performDataQualityCheck d)"
proof -
  have "pass (performDataQualityCheck d) =
          jge (overallQualityScore (performDataQualityCheck d)) (Num 0.75)"
    by (simp add: performDataQualityCheck_def Let_def)
  then show ?thesis
    using jlt_not_jge[OF assms] by simp
qed

text \<open>
  A failed gate ends the evaluation at once: a negative result with zero metrics, no
  call of any agent, the engine unchanged. The result has no \<open>agentResults\<close>
  property.
\<close>

lemma quality_gate_short_circuit:
  assumes "\<not> pass (performDataQualityCheck d)"
  shows "evaluateWithConsensus e c d now =
     (\<lparr> consensus_result.detection = False, consensus_result.confidence = Num 0,
        consensus = Num 0, agentAgreement = Num 0, vetoStatus = None,
        agentResults = None, falsePositiveCheck = None,
        qualityReport = Some (performDataQualityCheck d),
        consensus_result.timestamp = now \<rparr>, e, [])"
  using assms by (simp add: evaluateWithConsensus_def Let_def)

text \<open>
  C3. On a snapshot that fails the gate (Landsat 8 imagery only, score 0.73) the result
  is negative with confidence 0, no agent is called and the engine is unchanged, but the
  result carries no detector-result map at all: \<open>agentResults\<close> is missing, not the
  empty map that the \<open>catch\<close> block returns and that the interface
  \<open>ConsensusResult\<close> requires.
\<close>

theorem quality_failure_omits_agentResults:
  "overallQualityScore (performDataQualityCheck landsat_only) = Num 0.73
   \<and> \<not> pass (performDataQualityCheck landsat_only)
   \<and> fst (evaluateWithConsensus scenario_A_engine gold_candidate landsat_only ''now'') =
       \<lparr> consensus_result.detection = False, consensus_result.confidence = Num 0,
         consensus = Num 0, agentAgreement = Num 0, vetoStatus = None,
         agentResults = None, falsePositiveCheck = None,
         qualityReport = Some (performDataQualityCheck landsat_only),
         consensus_result.timestamp = ''now'' \<rparr>
   \<and> snd (snd (evaluateWithConsensus scenario_A_engine gold_candidate landsat_only ''now''))
       = []
   \<and> agentResults (evaluation_failed ''now'') = Some []"
proof -
  have score: "overallQualityScore (performDataQualityCheck landsat_only) = Num 0.73"
    by code_simp
  have fails: "\<not> pass (performDataQualityCheck landsat_only)"
    by code_simp
  show ?thesis
    by (simp add: score fails quality_gate_short_circuit[OF fails] evaluation_failed_def)
qed

section \<open>Properties of the orchestrator\<close>



lemma update_fresh: "k \<notin> fst ` set obj \<Longrightarrow> AList.update k v obj = obj @ [(k, v)]"
  by (induction obj) auto

lemma foldl_update_fresh:
  "distinct (map fst ps) \<Longrightarrow> fst ` set obj \<inter> fst ` set ps = {} \<Longrightarrow>
   foldl (\<lambda>obj (nm, r). AList.update nm r obj) obj ps = obj @ ps"
proof (induction ps arbitrary: obj)
  case Nil
  then show ?case by simp
next
  case (Cons p ps)
  obtain k v where p: "p = (k, v)" by (cases p)
  have fresh: "k \<notin> fst ` set obj"
    using Cons.prems(2) p by auto
  have d: "distinct (map fst ps)"
    using Cons.prems(1) by simp
  have disj: "fst ` set (obj @ [(k, v)]) \<inter> fst ` set ps = {}"
    using Cons.prems p by auto
  show ?case
    using Cons.IH[OF d disj] by (simp add: p update_fresh[OF fresh])
qed









section \<open>Properties of the pipeline\<close>

text \<open>
  C1. Whenever the veto logic fires on the agents' results, or the false-positive check
  reports a known pattern, the result of the evaluation is negative, whatever the
  metrics and the thresholds are.
\<close>

theorem veto_or_known_pattern_forces_negative:
  assumes "rs = fst (runAgentEvaluations e c d now)"
    and "vetoed (applyVetoLogic e rs (calculateConsensusMetrics e rs))
         \<or> (\<exists>fp. checkFalsePositiveDatabase e c rs = Inr fp \<and> isKnownFP fp)"
  shows "\<not> consensus_result.detection (fst (evaluateWithConsensus e c d now))"
  using assms
  by (auto simp: evaluateWithConsensus_def Let_def evaluation_failed_def
        split: prod.splits sum.splits)

theorem veto_or_known_pattern_forces_negative_witness:
  "vetoed (applyVetoLogic scenario_B_engine
       (fst (runAgentEvaluations scenario_B_engine gold_candidate no_channels ''now''))
       (calculateConsensusMetrics scenario_B_engine
          (fst (runAgentEvaluations scenario_B_engine gold_candidate no_channels ''now''))))
   \<and> consensus_result.confidence
         (fst (evaluateWithConsensus scenario_B_engine gold_candidate no_channels ''now''))
       = Num 0.85
   \<and> \<not> consensus_result.detection
         (fst (evaluateWithConsensus scenario_B_engine gold_candidate no_channels ''now''))
   \<and> (\<exists>fp. checkFalsePositiveDatabase nested_pattern_engine gold_candidate
           (fst (runAgentEvaluations nested_pattern_engine gold_candidate no_channels ''now''))
           = Inr fp \<and> isKnownFP fp)
   \<and> \<not> consensus_result.detection
         (fst (evaluateWithConsensus nested_pattern_engine gold_candidate no_channels ''now''))"
proof -
  let ?rsB = "fst (runAgentEvaluations scenario_B_engine gold_candidate no_channels ''now'')"
  let ?rsN = "fst (runAgentEvaluations nested_pattern_engine gold_candidate no_channels ''now'')"
  have veto: "vetoed (applyVetoLogic scenario_B_engine ?rsB
                 (calculateConsensusMetrics scenario_B_engine ?rsB))"
    by code_simp
  have conf: "consensus_result.confidence
         (fst (evaluateWithConsensus scenario_B_engine gold_candidate no_channels ''now''))
       = Num 0.85"
    by code_simp
  have known: "checkFalsePositiveDatabase nested_pattern_engine gold_candidate ?rsN =
      Inr \<lparr> isKnownFP = True,
            matchDetails = Some \<lparr> patternId = ''fp-1'', matchScore = Num 1,
              pattern = laterite_pattern (PatObject expected_outputs),
              explanation = generateFPExplanation (laterite_pattern (PatObject expected_outputs))
                (extractAnomalyFeatures gold_candidate ?rsN) \<rparr> \<rparr>"
    by code_simp
  have fp: "\<exists>fp. checkFalsePositiveDatabase nested_pattern_engine gold_candidate ?rsN = Inr fp
              \<and> isKnownFP fp"
    unfolding known by simp
  have negB: "\<not> consensus_result.detection
         (fst (evaluateWithConsensus scenario_B_engine gold_candidate no_channels ''now''))"
    using veto_or_known_pattern_forces_negative[of ?rsB scenario_B_engine gold_candidate
            no_channels "''now''"] veto
    by blast
  have negN: "\<not> consensus_result.detection
         (fst (evaluateWithConsensus nested_pattern_engine gold_candidate no_channels ''now''))"
    using veto_or_known_pattern_forces_negative[of ?rsN nested_pattern_engine gold_candidate
            no_channels "''now''"] fp
    by blast
  show ?thesis
    using veto conf fp negB negN by blast
qed

text \<open>
  No stage of the pipeline reads \<open>consensusThreshold\<close>.
\<close>

lemma run_one_threshold: "run_one (set_threshold t e) = run_one e"
  by (simp add: fun_eq_iff run_one_def runAgentWithTimeout_def)

lemma run_parallel_threshold:
  "run_parallel (set_threshold t e) ags c d now calls = run_parallel e ags c d now calls"
  by (induction ags arbitrary: calls) (auto simp: run_one_threshold)

lemma run_sequential_threshold:
  "run_sequential (set_threshold t e) ags c d now obj calls =
     run_sequential e ags c d now obj calls"
  by (induction ags arbitrary: obj calls) (auto simp: run_one_threshold split: prod.splits)

lemma runAgentEvaluations_threshold:
  "runAgentEvaluations (set_threshold t e) c d now = runAgentEvaluations e c d now"
  by (simp add: runAgentEvaluations_def run_parallel_threshold run_sequential_threshold)

lemma calculateConsensusMetrics_threshold:
  "calculateConsensusMetrics (set_threshold t e) rs = calculateConsensusMetrics e rs"
  by (simp add: calculateConsensusMetrics_def)

lemma applyVetoLogic_threshold:
  "applyVetoLogic (set_threshold t e) rs m = applyVetoLogic e rs m"
  by (simp add: applyVetoLogic_def)

lemma checkFalsePositiveDatabase_threshold:
  "checkFalsePositiveDatabase (set_threshold t e) c rs = checkFalsePositiveDatabase e c rs"
  by (simp add: checkFalsePositiveDatabase_def)

text \<open>
  C6. Two engines that differ only in \<open>consensusThreshold\<close> return the same result
  for the same candidate, data and clock, call the same agents, and end in states that
  again differ only in that value.
\<close>

theorem consensusThreshold_is_never_consulted:
  "evaluateWithConsensus (set_threshold t e) c d now =
     (case evaluateWithConsensus e c d now of
        (r, e', calls) \<Rightarrow> (r, set_threshold t e', calls))"
  by (simp add: evaluateWithConsensus_def runAgentEvaluations_threshold
        calculateConsensusMetrics_threshold applyVetoLogic_threshold
        checkFalsePositiveDatabase_threshold Let_def split: prod.splits sum.splits)

theorem consensusThreshold_is_never_consulted_witness:
  "fst (evaluateWithConsensus
          (scenario_A_engine\<lparr> config := (config scenario_A_engine)
             \<lparr> consensus_config.consensusThreshold := Num 1 \<rparr> \<rparr>)
          gold_candidate no_channels ''now'')
   = fst (evaluateWithConsensus scenario_A_engine gold_candidate no_channels ''now'')
   \<and> consensus (fst (evaluateWithConsensus scenario_A_engine gold_candidate no_channels ''now''))
       = Num 1
   \<and> consensus_result.detection
         (fst (evaluateWithConsensus scenario_A_engine gold_candidate no_channels ''now''))"
proof -
  have same: "fst (evaluateWithConsensus
          (scenario_A_engine\<lparr> config := (config scenario_A_engine)
             \<lparr> consensus_config.consensusThreshold := Num 1 \<rparr> \<rparr>)
          gold_candidate no_channels ''now'')
   = fst (evaluateWithConsensus scenario_A_engine gold_candidate no_channels ''now'')"
    using consensusThreshold_is_never_consulted[of "Num 1" scenario_A_engine gold_candidate
            no_channels "''now''"]
    by (simp split: prod.splits)
  have c: "consensus (fst (evaluateWithConsensus scenario_A_engine gold_candidate no_channels
              ''now'')) = Num 1"
    by code_simp
  have dt: "consensus_result.detection
         (fst (evaluateWithConsensus scenario_A_engine gold_candidate no_channels ''now''))"
    by code_simp
  show ?thesis
    using same c dt by blast
qed


section \<open>Properties of the history and the statistics\<close>

text \<open>
  Only the last return of \<open>evaluateWithConsensus\<close> is preceded by the
  \<open>push\<close>: the history grows by the result exactly when the evaluation reaches the
  fusion, and such a result has neither a veto record nor a false-positive record.
\<close>

lemma history_after_evaluation:
  "consensusHistory (fst (snd (evaluateWithConsensus e c d now))) = consensusHistory e
   \<or> (consensusHistory (fst (snd (evaluateWithConsensus e c d now))) =
          consensusHistory e @ [fst (evaluateWithConsensus e c d now)]
        \<and> vetoStatus (fst (evaluateWithConsensus e c d now)) = None
        \<and> falsePositiveCheck (fst (evaluateWithConsensus e c d now)) = None)"
  by (simp add: evaluateWithConsensus_def Let_def split: prod.splits sum.splits)

lemma rejected_results_are_not_logged:
  assumes "chain (vetoStatus (fst (evaluateWithConsensus e c d now))) vetoed
           \<or> chain (falsePositiveCheck (fst (evaluateWithConsensus e c d now))) isKnownFP
           \<or> \<not> chain (qualityReport (fst (evaluateWithConsensus e c d now))) pass"
  shows "consensusHistory (fst (snd (evaluateWithConsensus e c d now))) = consensusHistory e"
  using assms
  by (auto simp: evaluateWithConsensus_def Let_def chain_def evaluation_failed_def
        split: prod.splits sum.splits if_splits)

lemma logged_results_have_no_veto:
  assumes "\<forall>r \<in> set (consensusHistory e). vetoStatus r = None"
  shows "\<forall>r \<in> set (consensusHistory (fst (snd (evaluateWithConsensus e c d now)))).
           vetoStatus r = None"
  using assms history_after_evaluation[of e c d now] by auto

lemma vetoRate_is_zero:
  assumes "\<forall>r \<in> set (consensusHistory e). vetoStatus r = None"
    and "getConsensusStatistics e = Some s"
  shows "vetoRate s = Num 0"
proof -
  have "filter (\<lambda>r. chain (vetoStatus r) vetoed) (consensusHistory e) = []"
    using assms(1) by (auto simp: filter_empty_conv chain_def)
  then show ?thesis
    using assms(2)
    by (auto simp: getConsensusStatistics_def Let_def split: if_splits)
qed

text \<open>
  C10. Vetoed, pattern-matched and quality-failed results are returned before the
  \<open>push\<close> and never reach the history. After a positive gold evaluation and a
  vetoed copper evaluation the statistics count one evaluation and a veto rate of 0,
  where one of two evaluations was vetoed.
\<close>

theorem vetoed_results_are_not_in_history:
  "consensus_result.detection
     (fst (evaluateWithConsensus selective_engine gold_candidate no_channels ''t1''))
   \<and> length (consensusHistory after_gold) = 1
   \<and> chain (vetoStatus (fst (evaluateWithConsensus after_gold copper_candidate no_channels
         ''t2''))) vetoed
   \<and> length (consensusHistory after_copper) = 1
   \<and> map_option totalEvaluations (getConsensusStatistics after_copper) = Some 1
   \<and> map_option vetoRate (getConsensusStatistics after_copper) = Some (Num 0)
   \<and> consensusHistory (fst (snd (evaluateWithConsensus scenario_B_engine gold_candidate
         no_channels ''now''))) = []
   \<and> consensusHistory (fst (snd (evaluateWithConsensus nested_pattern_engine gold_candidate
         no_channels ''now''))) = []
   \<and> consensusHistory (fst (snd (evaluateWithConsensus scenario_A_engine gold_candidate
         landsat_only ''now''))) = []"
proof -
  have 1: "consensus_result.detection
     (fst (evaluateWithConsensus selective_engine gold_candidate no_channels ''t1''))"
    by code_simp
  have 2: "length (consensusHistory after_gold) = 1"
    by code_simp
  have 3: "chain (vetoStatus (fst (evaluateWithConsensus after_gold copper_candidate
              no_channels ''t2''))) vetoed"
    by code_simp
  have 4: "length (consensusHistory after_copper) = 1"
    by code_simp
  have 5: "map_option totalEvaluations (getConsensusStatistics after_copper) = Some 1"
    by code_simp
  have 6: "map_option vetoRate (getConsensusStatistics after_copper) = Some (Num 0)"
    by code_simp
  have 7: "consensusHistory (fst (snd (evaluateWithConsensus scenario_B_engine gold_candidate
         no_channels ''now''))) = []"
    by code_simp
  have 8: "consensusHistory (fst (snd (evaluateWithConsensus nested_pattern_engine
         gold_candidate no_channels ''now''))) = []"
    by code_simp
  have 9: "consensusHistory (fst (snd (evaluateWithConsensus scenario_A_engine gold_candidate
         landsat_only ''now''))) = []"
    by code_simp
  show ?thesis
    using 1 2 3 4 5 6 7 8 9 by blast
qed

section \<open>Properties of the constructor\<close>





section \<open>Properties of the fusion\<close>

lemma consensus_loop_weights:
  "map_of (snd (snd (consensus_loop ags rs (a, b, w)))) k =
     (if k \<in> fst ` set rs then Some (registered_priority ags k) else map_of w k)"
proof (induction rs arbitrary: a b w)
  case Nil
  then show ?case by simp
next
  case (Cons p rs)
  obtain nm r where p: "p = (nm, r)" by (cases p)
  show ?case
    by (simp add: p Cons.IH Let_def update_conv' registered_priority_def)
qed

lemma agentWeights_eq:
  "agentWeights (calculateConsensusMetrics e rs) =
     snd (snd (consensus_loop (agents e) rs (Num 0, Num 0, [])))"
  by (simp add: calculateConsensusMetrics_def Let_def split: prod.splits)

lemma confidence_loop_finite:
  assumes "\<forall>(nm, r) \<in> set rs.
             or_default (case ws of None \<Rightarrow> None | Some w \<Rightarrow> map_of w nm) (Num 1) = Num (wt nm)
           \<and> agent_result.confidence r = Num (cf r) \<and> uncertainty r = Num (un r)"
  shows "confidence_loop rs ws (Num a, Num b) =
     (Num (a + (\<Sum>(nm, r) \<leftarrow> rs. if agent_result.detection r then cf r * (1 - un r) * wt nm else 0)),
      Num (b + (\<Sum>(nm, r) \<leftarrow> rs. wt nm)))"
  using assms
proof (induction rs arbitrary: a b)
  case Nil
  then show ?case by simp
next
  case (Cons p rs)
  obtain nm r where p: "p = (nm, r)" by (cases p)
  have head: "or_default (case ws of None \<Rightarrow> None | Some w \<Rightarrow> map_of w nm) (Num 1) = Num (wt nm)"
    "agent_result.confidence r = Num (cf r)" "uncertainty r = Num (un r)"
    using Cons.prems p by auto
  have rest: "\<forall>(nm, r) \<in> set rs.
             or_default (case ws of None \<Rightarrow> None | Some w \<Rightarrow> map_of w nm) (Num 1) = Num (wt nm)
           \<and> agent_result.confidence r = Num (cf r) \<and> uncertainty r = Num (un r)"
    using Cons.prems by auto
  show ?case
    by (simp add: p head Let_def jsub_def Cons.IH[OF rest] algebra_simps)
qed


lemma fused_confidence_formula:
  assumes pri: "\<forall>(nm, r) \<in> set rs. \<exists>p. registered_priority (agents e) nm = Num p \<and> 0 < p"
    and fin: "\<forall>(nm, r) \<in> set rs. \<exists>c u. agent_result.confidence r = Num c \<and> uncertainty r = Num u"
  shows "calculateWeightedConfidence rs (Some (agentWeights (calculateConsensusMetrics e rs))) =
     Num (spec_final_confidence
            (map (\<lambda>(nm, r). (the_num (registered_priority (agents e) nm),
                             agent_result.detection r,
                             the_num (agent_result.confidence r),
                             the_num (uncertainty r))) rs))"
proof -
  let ?ws = "Some (agentWeights (calculateConsensusMetrics e rs))"
  let ?wt = "\<lambda>nm. the_num (registered_priority (agents e) nm)"
  let ?cf = "\<lambda>r. the_num (agent_result.confidence r)"
  let ?un = "\<lambda>r. the_num (uncertainty r)"
  let ?S = "\<Sum>(nm, r) \<leftarrow> rs. if agent_result.detection r then ?cf r * (1 - ?un r) * ?wt nm else 0"
  let ?T = "\<Sum>(nm, r) \<leftarrow> rs. ?wt nm"
  have lookup: "map_of (agentWeights (calculateConsensusMetrics e rs)) nm =
                  Some (registered_priority (agents e) nm)"
    if "(nm, r) \<in> set rs" for nm r
    using that by (force simp: agentWeights_eq consensus_loop_weights)
  have entry: "or_default (case ?ws of None \<Rightarrow> None | Some w \<Rightarrow> map_of w nm) (Num 1) = Num (?wt nm)
           \<and> agent_result.confidence r = Num (?cf r) \<and> uncertainty r = Num (?un r)"
    if mem: "(nm, r) \<in> set rs" for nm r
  proof -
    obtain p where p: "registered_priority (agents e) nm = Num p" "0 < p"
      using bspec[OF pri mem] by auto
    obtain c u where cu: "agent_result.confidence r = Num c" "uncertainty r = Num u"
      using bspec[OF fin mem] by auto
    show ?thesis
      using p cu by (simp add: lookup[OF mem] or_default_def)
  qed
  have loop: "confidence_loop rs ?ws (Num 0, Num 0) = (Num (0 + ?S), Num (0 + ?T))"
    by (rule confidence_loop_finite) (use entry in auto)
  have nonneg: "0 \<le> ?T"
  proof (rule sum_list_nonneg)
    fix x assume "x \<in> set (map (\<lambda>(nm, r). ?wt nm) rs)"
    then obtain nm r where "(nm, r) \<in> set rs" "x = ?wt nm" by auto
    then show "0 \<le> x" using bspec[OF pri, of "(nm, r)"] by auto
  qed
  have sumT: "(\<Sum>(w, dt, c, u) \<leftarrow> map (\<lambda>(nm, r). (?wt nm, agent_result.detection r, ?cf r, ?un r)) rs. w) = ?T"
    by (induction rs) (auto simp: case_prod_beta)
  have sumS: "(\<Sum>(w, dt, c, u) \<leftarrow> map (\<lambda>(nm, r). (?wt nm, agent_result.detection r, ?cf r, ?un r)) rs.
                 if dt then c * (1 - u) * w else 0) = ?S"
    by (induction rs) (auto simp: case_prod_beta)
  show ?thesis
    unfolding calculateWeightedConfidence_def loop spec_final_confidence_def sumT sumS
    using nonneg by (auto simp: jgt_def Let_def)
qed

text \<open>
  When the gate passes, no veto fires and no stored pattern matches, the result carries
  the fused confidence, it is positive exactly when that confidence reaches
  \<open>confidenceThreshold\<close>, and it is appended to the history.
\<close>

lemma fusion_decision:
  assumes "pass (performDataQualityCheck d)"
    and "rs = fst (runAgentEvaluations e c d now)"
    and "\<not> vetoed (applyVetoLogic e rs (calculateConsensusMetrics e rs))"
    and "checkFalsePositiveDatabase e c rs = Inr fp" and "\<not> isKnownFP fp"
    and "r = fst (evaluateWithConsensus e c d now)"
  shows "consensus_result.confidence r =
           calculateWeightedConfidence rs (Some (agentWeights (calculateConsensusMetrics e rs)))
     \<and> consensus_result.detection r =
           jge (consensus_result.confidence r) (consensus_config.confidenceThreshold (config e))
     \<and> consensusHistory (fst (snd (evaluateWithConsensus e c d now))) =
           consensusHistory e @ [r]"
  using assms
  by (auto simp: evaluateWithConsensus_def Let_def split: prod.splits sum.splits)

text \<open>
  C5. A detector of priority 0 has weight 0 in the consensus metrics, but
  \<open>calculateWeightedConfidence\<close> reads its weight as \<open>agentWeights[name] || 1\<close>,
  that is 1. With this single detector the total weight is 0 and the formula gives 0;
  the code returns 0.9 * (1 - 0.1) = 0.81 and reports a detection.
\<close>

theorem zero_priority_is_fused_with_weight_one:
  "agentWeights (calculateConsensusMetrics zero_priority_engine
      [(''A'', positive_result ''A'' 0.9 0.1)]) = [(''A'', Num 0)]
   \<and> weightedConsensus (calculateConsensusMetrics zero_priority_engine
      [(''A'', positive_result ''A'' 0.9 0.1)]) = Num 0
   \<and> spec_final_confidence [(0, True, 0.9, 0.1)] = 0
   \<and> consensus_result.confidence
         (fst (evaluateWithConsensus zero_priority_engine gold_candidate no_channels ''now''))
       = Num 0.81
   \<and> consensus_result.detection
         (fst (evaluateWithConsensus zero_priority_engine gold_candidate no_channels ''now''))"
proof -
  have 1: "agentWeights (calculateConsensusMetrics zero_priority_engine
      [(''A'', positive_result ''A'' 0.9 0.1)]) = [(''A'', Num 0)]"
    by code_simp
  have 2: "weightedConsensus (calculateConsensusMetrics zero_priority_engine
      [(''A'', positive_result ''A'' 0.9 0.1)]) = Num 0"
    by code_simp
  have 3: "spec_final_confidence [(0, True, 0.9, 0.1)] = 0"
    by (simp add: spec_final_confidence_def)
  have 4: "consensus_result.confidence
         (fst (evaluateWithConsensus zero_priority_engine gold_candidate no_channels ''now''))
       = Num 0.81"
    by code_simp
  have 5: "consensus_result.detection
         (fst (evaluateWithConsensus zero_priority_engine gold_candidate no_channels ''now''))"
    by code_simp
  show ?thesis
    using 1 2 3 4 5 by blast
qed

section \<open>Properties of the pattern matcher\<close>

lemma new_Map_distinct: "distinct (map fst ps) \<Longrightarrow> new_Map ps = ps"
  using foldl_update_fresh[of ps "[]"] by (simp add: new_Map_def)

lemma compareAgentPatterns_nested:
  assumes "distinct (map agent detections)"
  shows "compareAgentPatterns detections (PatObject entries) =
     Inr (jdiv (Num (real (length (filter
                  (\<lambda>dt. map_of (new_Map entries) (agent dt) = Some (agent_detection.detection dt))
                  detections))))
               (Num (real (length detections))))"
proof -
  let ?pairs = "map (\<lambda>dt. (agent dt, agent_detection.detection dt)) detections"
  have keys: "fst \<circ> (\<lambda>dt. (agent dt, agent_detection.detection dt)) = agent"
    by (simp add: fun_eq_iff)
  have "distinct (map fst ?pairs)"
    using assms by (simp add: keys)
  then have m: "new_Map ?pairs = ?pairs"
    by (rule new_Map_distinct)
  have "length (filter (\<lambda>(a, b). map_of (new_Map entries) a = Some b) ?pairs) =
        length (filter (\<lambda>dt. map_of (new_Map entries) (agent dt) = Some (agent_detection.detection dt))
                  detections)"
    by (induction detections) auto
  then show ?thesis
    by (simp add: compareAgentPatterns_def m Let_def)
qed

lemma pattern_score_nested:
  assumes "agentPattern pat = PatObject entries"
    and "distinct (map agent (agentDetections features))"
    and "agentDetections features \<noteq> []"
  shows "calculatePatternMatch features pat =
     Inr (Num ((if anomaly_features.resource features = fp_pattern.resource pat then 0.3 else 0)
             + (if anomaly_features.geology features = fp_pattern.geology pat then 0.3 else 0)
             + 0.4 * (real (length (filter
                  (\<lambda>dt. map_of (new_Map entries) (agent dt) = Some (agent_detection.detection dt))
                  (agentDetections features)))
                / real (length (agentDetections features)))))"
  using assms(3)
  by (simp add: calculatePatternMatch_def compareAgentPatterns_nested[OF assms(2)] assms(1) Let_def)


lemma fp_loop_reports:
  assumes "fp_loop features db = Inr fp" and "isKnownFP fp"
  shows "\<exists>pid pat score. (pid, pat) \<in> set db
           \<and> calculatePatternMatch features pat = Inr score \<and> jgt score (Num 0.7)
           \<and> matchDetails fp = Some \<lparr> patternId = pid, matchScore = score, pattern = pat,
                  explanation = generateFPExplanation pat features \<rparr>"
  using assms
proof (induction db)
  case Nil
  then show ?case by (auto simp: no_fp_def)
next
  case (Cons p db)
  obtain pid pat where p: "p = (pid, pat)" by (cases p)
  show ?case
  proof (cases "calculatePatternMatch features pat")
    case (Inl err)
    then show ?thesis using Cons.prems p by simp
  next
    case (Inr score)
    show ?thesis
    proof (cases "jgt score (Num 0.7)")
      case True
      then have "fp = \<lparr> isKnownFP = True,
                   matchDetails = Some \<lparr> patternId = pid, matchScore = score, pattern = pat,
                                        explanation = generateFPExplanation pat features \<rparr> \<rparr>"
        using Cons.prems(1) p Inr by simp
      then show ?thesis using True Inr p by auto
    next
      case False
      then have "fp_loop features db = Inr fp"
        using Cons.prems(1) p Inr by simp
      from Cons.IH[OF this Cons.prems(2)] show ?thesis by auto
    qed
  qed
qed

lemma fp_loop_finds:
  assumes "\<forall>(pid, pat) \<in> set db. \<exists>score. calculatePatternMatch features pat = Inr score"
    and "\<exists>(pid, pat) \<in> set db. \<exists>score. calculatePatternMatch features pat = Inr score \<and> jgt score (Num 0.7)"
  shows "\<exists>fp. fp_loop features db = Inr fp \<and> isKnownFP fp"
  using assms
proof (induction db)
  case Nil
  then show ?case by simp
next
  case (Cons p db)
  obtain pid pat where p: "p = (pid, pat)" by (cases p)
  obtain score where score: "calculatePatternMatch features pat = Inr score"
    using Cons.prems(1) p by auto
  show ?case
  proof (cases "jgt score (Num 0.7)")
    case True
    then show ?thesis by (simp add: p score)
  next
    case False
    have 1: "\<forall>(pid, pat) \<in> set db. \<exists>score. calculatePatternMatch features pat = Inr score"
      using Cons.prems(1) by auto
    have 2: "\<exists>(pid, pat) \<in> set db. \<exists>score. calculatePatternMatch features pat = Inr score \<and> jgt score (Num 0.7)"
      using Cons.prems(2) False score p by auto
    show ?thesis
      using Cons.IH[OF 1 2] False by (simp add: p score)
  qed
qed

lemma known_pattern_is_reported:
  assumes "pass (performDataQualityCheck d)"
    and "rs = fst (runAgentEvaluations e c d now)"
    and "\<not> vetoed (applyVetoLogic e rs (calculateConsensusMetrics e rs))"
    and "checkFalsePositiveDatabase e c rs = Inr fp" and "isKnownFP fp"
  shows "\<not> consensus_result.detection (fst (evaluateWithConsensus e c d now))
     \<and> falsePositiveCheck (fst (evaluateWithConsensus e c d now)) = Some fp"
  using assms
  by (auto simp: evaluateWithConsensus_def Let_def split: prod.splits sum.splits)

lemma pattern_error_aborts:
  assumes "pass (performDataQualityCheck d)"
    and "rs = fst (runAgentEvaluations e c d now)"
    and "\<not> vetoed (applyVetoLogic e rs (calculateConsensusMetrics e rs))"
    and "checkFalsePositiveDatabase e c rs = Inl err"
  shows "fst (evaluateWithConsensus e c d now) = evaluation_failed now"
  using assms
  by (auto simp: evaluateWithConsensus_def Let_def split: prod.splits sum.splits)


end
